theory Spec2Isabelle
  imports Main
begin

section \<open>The deployment as a resource graph\<close>

text \<open>
  The repository is a set of CDK stacks: each stack's constructor declares resources and
  hands a few of them on to the next stack.  Each stack is a function from its props
  to the resources it declares; each resource is a record of the props the source passes,
  and each mutating call of the source (\<^verbatim>\<open>addIngressRule\<close>, \<^verbatim>\<open>allowFrom\<close>,
  \<^verbatim>\<open>addContainer\<close>, ...) returns the updated resource.

  Values that only the platform knows (the ARN a stack formats, the ARN of a generated
  secret, the DNS name of a load balancer) are read from a \<open>Platform\<close> parameter; nothing
  is assumed about them.
\<close>

subsection \<open>Stack, environment, platform\<close>

record Environment =
  account :: "string option"
  region :: "string option"

record Stack =
  stackId :: string
  stackEnv :: "Environment option"

record ArnComponents =
  service :: string
  resource :: string
  resourceName :: string

record Platform =
  formatArn :: "Stack \<Rightarrow> ArnComponents \<Rightarrow> string"
  secretArnOf :: "string \<Rightarrow> string"
  dnsNameOf :: "string \<Rightarrow> string"

datatype Duration = Duration_seconds nat | Duration_days nat

fun toSeconds :: "Duration \<Rightarrow> nat" where
  "toSeconds (Duration_seconds n) = n"
| "toSeconds (Duration_days n) = n * 86400"

subsection \<open>foundationStack.ts\<close>

datatype SubnetType = PUBLIC | PRIVATE_ISOLATED

record SubnetConfiguration =
  cidrMask :: nat
  subnetName :: string
  subnetType :: SubnetType

record Vpc =
  vpcId :: string
  ipAddresses :: string
  natGateways :: nat
  maxAzs :: nat
  subnetConfiguration :: "SubnetConfiguration list"

text \<open>The VPC's address block is the CIDR it was declared with.\<close>

definition vpcCidrBlock :: "Vpc \<Rightarrow> string" where
  "vpcCidrBlock v = ipAddresses v"

record StackProps =
  env :: "Environment option"

record FoundationStackProps = StackProps +
  stage :: string
  appName :: string

definition new_Stack :: "string \<Rightarrow> ('a StackProps_scheme) \<Rightarrow> Stack" where
  "new_Stack ident props = \<lparr> stackId = ident, stackEnv = env props \<rparr>"

definition FoundationStack_vpc :: "('a FoundationStackProps_scheme) \<Rightarrow> Vpc" where
  "FoundationStack_vpc props =
     \<lparr> vpcId = stage props @ ''-'' @ appName props @ ''-vpc'',
       ipAddresses = ''10.0.0.0/21'',
       natGateways = 0,
       maxAzs = 2,
       subnetConfiguration =
         [ \<lparr> cidrMask = 23, subnetName = ''public'', subnetType = PUBLIC \<rparr>,
           \<lparr> cidrMask = 23, subnetName = ''private'', subnetType = PRIVATE_ISOLATED \<rparr> ] \<rparr>"

subsection \<open>Security groups\<close>

text \<open>
  A connectable is what the source passes as the other end of a rule:
  \<^verbatim>\<open>ec2.Peer.ipv4(cidr)\<close>, \<^verbatim>\<open>new ec2.Connections({ securityGroups: [...] })\<close>
  (the groups by construct id) and a database instance (by construct id).
  \<^verbatim>\<open>ec2.Peer.anyIpv4()\<close> is the IPv4 block \<^verbatim>\<open>0.0.0.0/0\<close>.
\<close>

datatype Connectable =
    Peer_ipv4 string
  | Connections "string list"
  | DatabaseInstanceRef string

definition Peer_anyIpv4 :: Connectable where
  "Peer_anyIpv4 = Peer_ipv4 ''0.0.0.0/0''"

datatype Port = Port_tcp nat | Port_allTcp | Port_allTraffic

datatype IpProtocol = IP_TCP | IP_UDP | IP_ICMP

fun portAdmits :: "Port \<Rightarrow> IpProtocol \<Rightarrow> nat \<Rightarrow> bool" where
  "portAdmits (Port_tcp n) pr p = (pr = IP_TCP \<and> p = n)"
| "portAdmits Port_allTcp pr p = (pr = IP_TCP \<and> p \<le> 65535)"
| "portAdmits Port_allTraffic pr p = True"

datatype Direction = Ingress | Egress

record Rule =
  ruleDirection :: Direction
  rulePeer :: Connectable
  rulePort :: Port
  ruleDescription :: string

record SecurityGroup =
  sgId :: string
  sgVpc :: Vpc
  sgDescription :: string
  allowAllOutbound :: bool
  sgRules :: "Rule list"

text \<open>
  Every group of the source is created with \<^verbatim>\<open>{ vpc, description }\<close> only.  The library
  then takes \<^verbatim>\<open>allowAllOutbound\<close> to be true and gives the group its allow-all
  outbound rule: all protocols, to \<^verbatim>\<open>0.0.0.0/0\<close>.
\<close>

definition allowAllOutboundRule :: Rule where
  "allowAllOutboundRule =
     \<lparr> ruleDirection = Egress, rulePeer = Peer_anyIpv4, rulePort = Port_allTraffic,
       ruleDescription = ''Allow all outbound traffic by default'' \<rparr>"

definition new_SecurityGroup :: "string \<Rightarrow> Vpc \<Rightarrow> string \<Rightarrow> SecurityGroup" where
  "new_SecurityGroup ident v d =
     \<lparr> sgId = ident, sgVpc = v, sgDescription = d, allowAllOutbound = True,
       sgRules = [allowAllOutboundRule] \<rparr>"

text \<open>
  Adding rules to a group.  An inbound rule is appended; an outbound rule is appended only
  to a group without \<^verbatim>\<open>allowAllOutbound\<close>, and dropped otherwise (the allow-all rule
  already covers it).
\<close>

definition addIngressRule :: "SecurityGroup \<Rightarrow> Connectable \<Rightarrow> Port \<Rightarrow> string \<Rightarrow> SecurityGroup" where
  "addIngressRule sg peer prt d =
     sg\<lparr> sgRules := sgRules sg @
       [\<lparr> ruleDirection = Ingress, rulePeer = peer, rulePort = prt, ruleDescription = d \<rparr>] \<rparr>"

definition addEgressRule :: "SecurityGroup \<Rightarrow> Connectable \<Rightarrow> Port \<Rightarrow> string \<Rightarrow> SecurityGroup" where
  "addEgressRule sg peer prt d =
     (if allowAllOutbound sg then sg
      else sg\<lparr> sgRules := sgRules sg @
        [\<lparr> ruleDirection = Egress, rulePeer = peer, rulePort = prt, ruleDescription = d \<rparr>] \<rparr>)"

text \<open>
  \<^verbatim>\<open>sg.connections.allowFrom(other, port, description)\<close> and
  \<^verbatim>\<open>sg.connections.allowTo(other, port, description)\<close> act on both ends.  On the calling
  group \<open>sg\<close> they add the inbound, respectively outbound, rule (\<open>allowFrom\<close>,
  \<open>allowTo\<close>).  On each security group \<open>g\<close> of the other end they add the matching rule
  with \<open>sg\<close> as its peer: outbound for \<^verbatim>\<open>allowFrom\<close>, inbound for \<^verbatim>\<open>allowTo\<close>
  (\<open>allowFrom_other\<close>, \<open>allowTo_other\<close>).  An address block has no security group, so
  nothing is added on its side.

  Rules that other constructs of the library put on a group by themselves (a listener
  opening its port on the load balancer's group) are left out; no property below reads the
  inbound rules of the load balancer's group.
\<close>

definition allowFrom :: "SecurityGroup \<Rightarrow> Connectable \<Rightarrow> Port \<Rightarrow> string \<Rightarrow> SecurityGroup" where
  "allowFrom sg other prt d = addIngressRule sg other prt d"

definition allowFrom_other :: "SecurityGroup \<Rightarrow> SecurityGroup \<Rightarrow> Port \<Rightarrow> string \<Rightarrow> SecurityGroup" where
  "allowFrom_other sg g prt d = addEgressRule g (Connections [sgId sg]) prt d"

definition allowTo :: "SecurityGroup \<Rightarrow> Connectable \<Rightarrow> Port \<Rightarrow> string \<Rightarrow> SecurityGroup" where
  "allowTo sg other prt d = addEgressRule sg other prt d"

definition allowTo_other :: "SecurityGroup \<Rightarrow> SecurityGroup \<Rightarrow> Port \<Rightarrow> string \<Rightarrow> SecurityGroup" where
  "allowTo_other sg g prt d = addIngressRule g (Connections [sgId sg]) prt d"

text \<open>Reading a group's rules.\<close>

definition ingressRules :: "SecurityGroup \<Rightarrow> Rule list" where
  "ingressRules sg = filter (\<lambda>r. ruleDirection r = Ingress) (sgRules sg)"

definition egressRules :: "SecurityGroup \<Rightarrow> Rule list" where
  "egressRules sg = filter (\<lambda>r. ruleDirection r = Egress) (sgRules sg)"

definition ingressPeers :: "SecurityGroup \<Rightarrow> IpProtocol \<Rightarrow> nat \<Rightarrow> Connectable list" where
  "ingressPeers sg pr p =
     map rulePeer (filter (\<lambda>r. portAdmits (rulePort r) pr p) (ingressRules sg))"

definition egressPeers :: "SecurityGroup \<Rightarrow> IpProtocol \<Rightarrow> nat \<Rightarrow> Connectable list" where
  "egressPeers sg pr p =
     map rulePeer (filter (\<lambda>r. portAdmits (rulePort r) pr p) (egressRules sg))"

definition admitsIngress :: "SecurityGroup \<Rightarrow> IpProtocol \<Rightarrow> nat \<Rightarrow> Connectable \<Rightarrow> bool" where
  "admitsIngress sg pr p peer = (peer \<in> set (ingressPeers sg pr p))"

definition admitsEgress :: "SecurityGroup \<Rightarrow> IpProtocol \<Rightarrow> nat \<Rightarrow> Connectable \<Rightarrow> bool" where
  "admitsEgress sg pr p peer = (peer \<in> set (egressPeers sg pr p))"

subsection \<open>Secrets\<close>

record SecretStringGenerator =
  secretStringTemplate :: "(string \<times> string) list option"
  generateStringKey :: "string option"
  excludeLowercase :: "bool option"
  excludeNumbers :: "bool option"
  excludeUppercase :: "bool option"
  excludePunctuation :: "bool option"
  includeSpace :: "bool option"
  passwordLength :: "nat option"

record Secret =
  secretId :: string
  secretDescription :: string
  generateSecretString :: SecretStringGenerator
  secretArn :: string

definition new_Secret :: "Platform \<Rightarrow> string \<Rightarrow> string \<Rightarrow> SecretStringGenerator \<Rightarrow> Secret" where
  "new_Secret pf ident d g =
     \<lparr> secretId = ident, secretDescription = d, generateSecretString = g,
       secretArn = secretArnOf pf ident \<rparr>"

subsection \<open>databaseStack.ts\<close>

datatype DatabaseInstanceEngine = POSTGRES
datatype InstanceClass = BURSTABLE4_GRAVITON
datatype InstanceSize = MICRO
datatype Credentials = Credentials_fromSecret Secret

record DatabaseInstance =
  dbId :: string
  dbVpc :: Vpc
  dbVpcSubnets :: SubnetType
  dbEngine :: DatabaseInstanceEngine
  dbInstanceType :: "InstanceClass \<times> InstanceSize"
  dbPort :: nat
  multiAz :: bool
  allowMajorVersionUpgrade :: bool
  autoMinorVersionUpgrade :: bool
  allocatedStorage :: nat
  maxAllocatedStorage :: nat
  deleteAutomatedBackups :: bool
  backupRetention :: Duration
  dbSecurityGroups :: "SecurityGroup list"
  publiclyAccessible :: bool
  credentials :: Credentials

record DatabaseStackProps = FoundationStackProps +
  vpc :: Vpc

definition databaseSecurityGroup :: "('a DatabaseStackProps_scheme) \<Rightarrow> SecurityGroup" where
  "databaseSecurityGroup props =
     new_SecurityGroup (stage props @ ''-'' @ appName props @ ''-database-security-group'')
       (vpc props) ''Control access to the database''"

definition DatabaseStack_databaseCredentialsSecret ::
  "Platform \<Rightarrow> ('a DatabaseStackProps_scheme) \<Rightarrow> Secret" where
  "DatabaseStack_databaseCredentialsSecret pf props =
     new_Secret pf (stage props @ ''-'' @ appName props @ ''-database-credentials-secret'')
       ''Database main user credentials''
       \<lparr> secretStringTemplate = Some [(''username'', ''postgres'')],
         generateStringKey = Some ''password'',
         excludeLowercase = None, excludeNumbers = None, excludeUppercase = None,
         excludePunctuation = Some True,
         includeSpace = Some False,
         passwordLength = None \<rparr>"

definition DatabaseStack_databaseCredentialsSecretArn ::
  "Platform \<Rightarrow> ('a DatabaseStackProps_scheme) \<Rightarrow> string" where
  "DatabaseStack_databaseCredentialsSecretArn pf props =
     secretArn (DatabaseStack_databaseCredentialsSecret pf props)"

definition DatabaseStack_database ::
  "Platform \<Rightarrow> ('a DatabaseStackProps_scheme) \<Rightarrow> DatabaseInstance" where
  "DatabaseStack_database pf props =
     \<lparr> dbId = stage props @ ''-'' @ appName props @ ''-database'',
       dbVpc = vpc props,
       dbVpcSubnets = PRIVATE_ISOLATED,
       dbEngine = POSTGRES,
       dbInstanceType = (BURSTABLE4_GRAVITON, MICRO),
       dbPort = 5432,
       multiAz = False,
       allowMajorVersionUpgrade = True,
       autoMinorVersionUpgrade = True,
       allocatedStorage = 20,
       maxAllocatedStorage = 40,
       deleteAutomatedBackups = False,
       backupRetention = Duration_days 7,
       dbSecurityGroups = [databaseSecurityGroup props],
       publiclyAccessible = False,
       credentials = Credentials_fromSecret (DatabaseStack_databaseCredentialsSecret pf props) \<rparr>"

subsection \<open>appStack.ts: resource types\<close>

record PolicyStatement =
  actions :: "string list"
  resources :: "string list"

datatype Principal = ServicePrincipal string

record Role =
  roleId :: string
  assumedBy :: Principal
  rolePolicy :: "PolicyStatement list"

definition addToPrincipalPolicy :: "Role \<Rightarrow> PolicyStatement \<Rightarrow> Role" where
  "addToPrincipalPolicy r s = r\<lparr> rolePolicy := rolePolicy r @ [s] \<rparr>"

datatype ContainerImage = ContainerImage_fromAsset string
datatype EcsProtocol = Protocol_TCP | Protocol_UDP
datatype AppProtocol = AppProtocol_http
datatype ApplicationProtocol = ApplicationProtocol_HTTP

record PortMapping =
  pmName :: string
  containerPort :: nat
  pmProtocol :: EcsProtocol
  appProtocol :: AppProtocol

record AwsLogDriver =
  streamPrefix :: string
  logRetention :: nat

text \<open>\<^verbatim>\<open>ecs.Secret.fromSecretsManager(secret, field)\<close>: the ARN of the secret and the JSON
  key read from it, if one is given.\<close>

datatype EcsSecret = Secret_fromSecretsManager string "string option"

record ImportedSecret =
  importedId :: string
  importedSecretArn :: string

definition fromSecretCompleteArn :: "string \<Rightarrow> string \<Rightarrow> ImportedSecret" where
  "fromSecretCompleteArn ident arn = \<lparr> importedId = ident, importedSecretArn = arn \<rparr>"

record ContainerDefinition =
  containerId :: string
  containerImage :: ContainerImage
  portMappings :: "PortMapping list"
  logging :: AwsLogDriver
  environment :: "(string \<times> string) list"
  secrets :: "(string \<times> EcsSecret) list"

record FargateTaskDefinition =
  tdId :: string
  cpu :: nat
  memoryLimitMiB :: nat
  tdTaskRole :: Role
  tdExecutionRole :: Role
  tdContainers :: "ContainerDefinition list"

definition addContainer :: "FargateTaskDefinition \<Rightarrow> ContainerDefinition \<Rightarrow> FargateTaskDefinition" where
  "addContainer td c = td\<lparr> tdContainers := tdContainers td @ [c] \<rparr>"

record Cluster =
  clusterId :: string
  clusterName :: string
  clusterVpc :: Vpc

record ApplicationLoadBalancer =
  lbId :: string
  loadBalancerName :: string
  lbVpc :: Vpc
  internetFacing :: bool
  lbSecurityGroup :: SecurityGroup
  loadBalancerDnsName :: string

definition new_ApplicationLoadBalancer ::
  "Platform \<Rightarrow> string \<Rightarrow> string \<Rightarrow> Vpc \<Rightarrow> bool \<Rightarrow> SecurityGroup \<Rightarrow> ApplicationLoadBalancer" where
  "new_ApplicationLoadBalancer pf ident nm v facing sg =
     \<lparr> lbId = ident, loadBalancerName = nm, lbVpc = v, internetFacing = facing,
       lbSecurityGroup = sg, loadBalancerDnsName = dnsNameOf pf nm \<rparr>"

record ApplicationListener =
  listenerId :: string
  listenerLoadBalancer :: string
  listenerPort :: nat

definition addListener :: "ApplicationLoadBalancer \<Rightarrow> string \<Rightarrow> nat \<Rightarrow> ApplicationListener" where
  "addListener lb ident prt =
     \<lparr> listenerId = ident, listenerLoadBalancer = lbId lb, listenerPort = prt \<rparr>"

record FargateService =
  serviceId :: string
  serviceName :: string
  svcCluster :: Cluster
  svcTaskDefinition :: FargateTaskDefinition
  desiredCount :: nat
  svcSecurityGroups :: "SecurityGroup list"
  assignPublicIp :: bool
  circuitBreakerRollback :: bool
  minHealthyPercent :: nat
  maxHealthyPercent :: nat
  enableExecuteCommand :: bool
  svcVpcSubnets :: SubnetType

record HealthCheck =
  hcPath :: string
  healthyThresholdCount :: nat
  unhealthyThresholdCount :: nat
  hcInterval :: Duration
  hcTimeout :: Duration

record ApplicationTargetGroup =
  tgId :: string
  tgListener :: string
  tgPort :: nat
  tgProtocol :: ApplicationProtocol
  tgTargets :: "FargateService list"
  healthCheck :: HealthCheck
  tgAttributes :: "string \<rightharpoonup> string"

definition addTargets ::
  "ApplicationListener \<Rightarrow> string \<Rightarrow> nat \<Rightarrow> ApplicationProtocol \<Rightarrow> FargateService list
     \<Rightarrow> HealthCheck \<Rightarrow> ApplicationTargetGroup" where
  "addTargets l ident prt proto ts hc =
     \<lparr> tgId = ident, tgListener = listenerId l, tgPort = prt, tgProtocol = proto,
       tgTargets = ts, healthCheck = hc, tgAttributes = Map.empty \<rparr>"

definition setAttribute :: "ApplicationTargetGroup \<Rightarrow> string \<Rightarrow> string \<Rightarrow> ApplicationTargetGroup" where
  "setAttribute tg k v = tg\<lparr> tgAttributes := (tgAttributes tg)(k \<mapsto> v) \<rparr>"

record AppStackProps = DatabaseStackProps +
  databaseCredentialsSecretArn :: string
  database :: DatabaseInstance

subsection \<open>appStack.ts: the constructor\<close>

text \<open>One definition for each local of the constructor, in source order.\<close>

definition relativeAppPath :: string where
  "relativeAppPath = ''../app''"

definition ecsClusterName :: "('a AppStackProps_scheme) \<Rightarrow> string" where
  "ecsClusterName props = appName props @ ''-ecs-cluster''"

definition ecsServiceName :: "('a AppStackProps_scheme) \<Rightarrow> string" where
  "ecsServiceName props = appName props @ ''-ecs-service''"

definition ecsAlbSecurityGroup :: "('a AppStackProps_scheme) \<Rightarrow> SecurityGroup" where
  "ecsAlbSecurityGroup props =
     addIngressRule
       (new_SecurityGroup (stage props @ ''-'' @ appName props @ ''-ecs-alb-security-group'')
          (vpc props) ''Control access to the ECS load balancer'')
       Peer_anyIpv4 (Port_tcp 80) ''Allow HTTP traffic from anywhere''"

definition ecsServiceSecurityGroup :: "('a AppStackProps_scheme) \<Rightarrow> SecurityGroup" where
  "ecsServiceSecurityGroup props =
     allowTo
       (allowFrom
          (allowFrom
             (new_SecurityGroup
                (stage props @ ''-'' @ appName props @ ''-ecs-service-security-group'')
                (vpc props) ''Control access to the ECS service'')
             (Connections [sgId (ecsAlbSecurityGroup props)]) (Port_tcp 4000)
             ''Allow TCP traffic on port 4000 from the load balancer'')
          (Peer_ipv4 (vpcCidrBlock (vpc props))) Port_allTcp
          ''Allow TCP traffic from other nodes for libcluster'')
       (DatabaseInstanceRef (dbId (database props))) (Port_tcp 5432)
       ''Allow traffic on port 5432 from the ECS service to the database''"

text \<open>
  The other end of the \<^verbatim>\<open>allowTo\<close> call is \<^verbatim>\<open>props.database\<close>: these are its
  security groups once the constructor has run.  (The other end of the first
  \<^verbatim>\<open>allowFrom\<close> call is the load balancer's group, which is left as it is: see
  \<open>ecsAlbSecurityGroup_other_end\<close> below.)
\<close>

definition AppStack_databaseSecurityGroups :: "('a AppStackProps_scheme) \<Rightarrow> SecurityGroup list" where
  "AppStack_databaseSecurityGroups props =
     map (\<lambda>g. allowTo_other (ecsServiceSecurityGroup props) g (Port_tcp 5432)
            ''Allow traffic on port 5432 from the ECS service to the database'')
       (dbSecurityGroups (database props))"

definition taskRole :: "('a AppStackProps_scheme) \<Rightarrow> Role" where
  "taskRole props =
     addToPrincipalPolicy
       (addToPrincipalPolicy
          (addToPrincipalPolicy
             \<lparr> roleId = stage props @ ''-'' @ appName props @ ''-ecs-task-role'',
               assumedBy = ServicePrincipal ''ecs-tasks.amazonaws.com'',
               rolePolicy = [] \<rparr>
             \<lparr> actions =
                 [''ssmmessages:CreateControlChannel'', ''ssmmessages:CreateDataChannel'',
                  ''ssmmessages:OpenControlChannel'', ''ssmmessages:OpenDataChannel''],
               resources = [''*''] \<rparr>)
          \<lparr> actions = [''ecs:ListServices'', ''ecs:ListTasks'', ''ecs:DescribeTasks''],
            resources = [''*''] \<rparr>)
       \<lparr> actions =
           [''logs:CreateLogGroup'', ''logs:CreateLogStream'', ''logs:DescribeLogStreams'',
            ''logs:PutRetentionPolicy'', ''logs:PutLogEvents''],
         resources = [''arn:aws:logs:*:*:log-group:/*''] \<rparr>"

definition executionRole :: "('a AppStackProps_scheme) \<Rightarrow> Role" where
  "executionRole props =
     addToPrincipalPolicy
       (addToPrincipalPolicy
          \<lparr> roleId = stage props @ ''-'' @ appName props @ ''-ecs-execution-role'',
            assumedBy = ServicePrincipal ''ecs-tasks.amazonaws.com'',
            rolePolicy = [] \<rparr>
          \<lparr> actions =
              [''ecr:GetAuthorizationToken'', ''ecr:BatchCheckLayerAvailability'',
               ''ecr:GetDownloadUrlForLayer'', ''ecr:BatchGetImage'',
               ''logs:CreateLogStream'', ''logs:PutLogEvents''],
            resources = [''*''] \<rparr>)
       \<lparr> actions = [''ssm:GetParameters'', ''secretsmanager:GetSecretValue'', ''kms:Decrypt''],
         resources = [''*''] \<rparr>"

definition new_taskDefinition :: "('a AppStackProps_scheme) \<Rightarrow> FargateTaskDefinition" where
  "new_taskDefinition props =
     \<lparr> tdId = stage props @ ''-'' @ appName props @ ''-ecs-task-definition'',
       cpu = 256,
       memoryLimitMiB = 512,
       tdTaskRole = taskRole props,
       tdExecutionRole = executionRole props,
       tdContainers = [] \<rparr>"

definition ecsCluster :: "('a AppStackProps_scheme) \<Rightarrow> Cluster" where
  "ecsCluster props =
     \<lparr> clusterId = stage props @ ''-'' @ appName props @ ''-ecs-cluster'',
       clusterName = ecsClusterName props,
       clusterVpc = vpc props \<rparr>"

definition ecsServiceArn :: "Platform \<Rightarrow> string \<Rightarrow> ('a AppStackProps_scheme) \<Rightarrow> string" where
  "ecsServiceArn pf ident props =
     formatArn pf (new_Stack ident props)
       \<lparr> service = ''ecs'',
         resource = ''service'',
         resourceName = ecsClusterName props @ ''/'' @ ecsServiceName props \<rparr>"

definition ecsLoadBalancer :: "Platform \<Rightarrow> ('a AppStackProps_scheme) \<Rightarrow> ApplicationLoadBalancer" where
  "ecsLoadBalancer pf props =
     new_ApplicationLoadBalancer pf
       (stage props @ ''-'' @ appName props @ ''-ecs-lb'')
       (stage props @ ''-'' @ appName props @ ''-ecs-lb'')
       (vpc props) True (ecsAlbSecurityGroup props)"

definition lbListener :: "Platform \<Rightarrow> ('a AppStackProps_scheme) \<Rightarrow> ApplicationListener" where
  "lbListener pf props =
     addListener (ecsLoadBalancer pf props)
       (stage props @ ''-'' @ appName props @ ''-ecs-load-balancer-listener'') 80"

definition generatedSecret :: "nat \<Rightarrow> SecretStringGenerator" where
  "generatedSecret n =
     \<lparr> secretStringTemplate = None, generateStringKey = None,
       excludeLowercase = Some False, excludeNumbers = Some False,
       excludeUppercase = Some False, excludePunctuation = Some True,
       includeSpace = Some False, passwordLength = Some n \<rparr>"

definition secretKeyBaseSecret :: "Platform \<Rightarrow> ('a AppStackProps_scheme) \<Rightarrow> Secret" where
  "secretKeyBaseSecret pf props =
     new_Secret pf (stage props @ ''-'' @ appName props @ ''-secret-key-base-secret'')
       ''Phoenix needs a secret key'' (generatedSecret 64)"

definition releaseCookieSecret :: "Platform \<Rightarrow> ('a AppStackProps_scheme) \<Rightarrow> Secret" where
  "releaseCookieSecret pf props =
     new_Secret pf (stage props @ ''-'' @ appName props @ ''-release-cookie-secret'')
       ''Nodes need to share a secret cookie to cluster'' (generatedSecret 64)"

definition liveBeatsGitHubClientIdSecret :: "Platform \<Rightarrow> ('a AppStackProps_scheme) \<Rightarrow> Secret" where
  "liveBeatsGitHubClientIdSecret pf props =
     new_Secret pf
       (stage props @ ''-'' @ appName props @ ''-live-beats-github-client-id-secret'')
       ''GitHub OAuth Client ID (the Live Beats app uses GitHub OAuth for authentication)''
       (generatedSecret 32)"

definition liveBeatsGitHubClientSecretSecret :: "Platform \<Rightarrow> ('a AppStackProps_scheme) \<Rightarrow> Secret" where
  "liveBeatsGitHubClientSecretSecret pf props =
     new_Secret pf
       (stage props @ ''-'' @ appName props @ ''-live-beats-github-client-secret-secret'')
       ''GitHub OAuth Client secret (the Live Beats app uses GitHub OAuth for authentication)''
       (generatedSecret 32)"

definition databaseCredentialsSecret :: "('a AppStackProps_scheme) \<Rightarrow> ImportedSecret" where
  "databaseCredentialsSecret props =
     fromSecretCompleteArn
       (stage props @ ''-'' @ appName props
          @ ''-live-beats-imported-database-credentials-secret'')
       (databaseCredentialsSecretArn props)"

text \<open>The region expression of the container environment: the region of \<^verbatim>\<open>props.env\<close>
  when both are present, the empty string otherwise.\<close>

definition envRegion :: "('a StackProps_scheme) \<Rightarrow> string" where
  "envRegion props =
     (case env props of
        None \<Rightarrow> ''''
      | Some e \<Rightarrow> (case region e of None \<Rightarrow> '''' | Some r \<Rightarrow> r))"

definition container :: "Platform \<Rightarrow> string \<Rightarrow> ('a AppStackProps_scheme) \<Rightarrow> ContainerDefinition" where
  "container pf ident props =
     \<lparr> containerId = stage props @ ''-'' @ appName props @ ''-ecs-container'',
       containerImage = ContainerImage_fromAsset relativeAppPath,
       portMappings =
         [ \<lparr> pmName = stage props @ ''-'' @ appName props @ ''-port-4000-tcp'',
             containerPort = 4000,
             pmProtocol = Protocol_TCP,
             appProtocol = AppProtocol_http \<rparr> ],
       logging =
         \<lparr> streamPrefix = ''/ecs/'' @ stage props @ ''-'' @ appName props @ ''-ecs-app'',
           logRetention = 30 \<rparr>,
       environment =
         [ (''PHX_HOST'', loadBalancerDnsName (ecsLoadBalancer pf props)),
           (''POOL_SIZE'', ''2''),
           (''AWS_ECS_CLUSTER_REGION'', envRegion props),
           (''AWS_ECS_CLUSTER_NAME'', ecsClusterName props),
           (''AWS_ECS_SERVICE_ARN'', ecsServiceArn pf ident props),
           (''DB_NAME'', ''postgres'') ],
       secrets =
         [ (''DB_USERNAME'',
              Secret_fromSecretsManager
                (importedSecretArn (databaseCredentialsSecret props)) (Some ''username'')),
           (''DB_PASSWORD'',
              Secret_fromSecretsManager
                (importedSecretArn (databaseCredentialsSecret props)) (Some ''password'')),
           (''DB_HOST'',
              Secret_fromSecretsManager
                (importedSecretArn (databaseCredentialsSecret props)) (Some ''host'')),
           (''DB_PORT'',
              Secret_fromSecretsManager
                (importedSecretArn (databaseCredentialsSecret props)) (Some ''port'')),
           (''SECRET_KEY_BASE'',
              Secret_fromSecretsManager (secretArn (secretKeyBaseSecret pf props)) None),
           (''RELEASE_COOKIE'',
              Secret_fromSecretsManager (secretArn (releaseCookieSecret pf props)) None),
           (''LIVE_BEATS_GITHUB_CLIENT_ID'',
              Secret_fromSecretsManager
                (secretArn (liveBeatsGitHubClientIdSecret pf props)) None),
           (''LIVE_BEATS_GITHUB_CLIENT_SECRET'',
              Secret_fromSecretsManager
                (secretArn (liveBeatsGitHubClientSecretSecret pf props)) None) ] \<rparr>"

text \<open>The task definition as the service sees it: after \<^verbatim>\<open>addContainer\<close>.\<close>

definition taskDefinition :: "Platform \<Rightarrow> string \<Rightarrow> ('a AppStackProps_scheme) \<Rightarrow> FargateTaskDefinition" where
  "taskDefinition pf ident props =
     addContainer (new_taskDefinition props) (container pf ident props)"

definition ecsService :: "Platform \<Rightarrow> string \<Rightarrow> ('a AppStackProps_scheme) \<Rightarrow> FargateService" where
  "ecsService pf ident props =
     \<lparr> serviceId = stage props @ ''-'' @ appName props @ ''-ecs-service'',
       serviceName = ecsServiceName props,
       svcCluster = ecsCluster props,
       svcTaskDefinition = taskDefinition pf ident props,
       desiredCount = 0,
       svcSecurityGroups = [ecsServiceSecurityGroup props],
       assignPublicIp = True,
       circuitBreakerRollback = True,
       minHealthyPercent = 50,
       maxHealthyPercent = 500,
       enableExecuteCommand = True,
       svcVpcSubnets = PUBLIC \<rparr>"

definition lbTargetGroup :: "Platform \<Rightarrow> string \<Rightarrow> ('a AppStackProps_scheme) \<Rightarrow> ApplicationTargetGroup" where
  "lbTargetGroup pf ident props =
     setAttribute
       (addTargets (lbListener pf props)
          (stage props @ ''-'' @ appName props @ ''-ecs-load-balancer-target-group1'')
          4000 ApplicationProtocol_HTTP [ecsService pf ident props]
          \<lparr> hcPath = ''/signin'',
            healthyThresholdCount = 2,
            unhealthyThresholdCount = 2,
            hcInterval = Duration_seconds 5,
            hcTimeout = Duration_seconds 3 \<rparr>)
       ''deregistration_delay.timeout_seconds'' ''10''"

text \<open>The stack's \<^verbatim>\<open>CfnOutput\<close>s, by name.\<close>

definition AppStack_outputs :: "Platform \<Rightarrow> ('a AppStackProps_scheme) \<Rightarrow> (string \<times> string) list" where
  "AppStack_outputs pf props =
     [ (''Load balancer DNS name'', loadBalancerDnsName (ecsLoadBalancer pf props)),
       (''GitHub OAuth Client ID ARN'', secretArn (liveBeatsGitHubClientIdSecret pf props)),
       (''GitHub OAuth Client secret ARN'',
          secretArn (liveBeatsGitHubClientSecretSecret pf props)) ]"

subsection \<open>bin/live-beats-aws.ts\<close>

text \<open>The two environment variables the script reads are its parameters.\<close>

definition envPrimaryRegion :: "string option \<Rightarrow> string option \<Rightarrow> Environment" where
  "envPrimaryRegion CDK_DEFAULT_ACCOUNT CDK_DEFAULT_REGION =
     \<lparr> account = CDK_DEFAULT_ACCOUNT, region = CDK_DEFAULT_REGION \<rparr>"

definition bin_stage :: string where
  "bin_stage = ''staging''"

definition bin_appName :: string where
  "bin_appName = ''live-beats''"

definition foundationStack_props :: "Environment \<Rightarrow> FoundationStackProps" where
  "foundationStack_props e = \<lparr> env = Some e, stage = bin_stage, appName = bin_appName \<rparr>"

definition databaseStack_props :: "Environment \<Rightarrow> DatabaseStackProps" where
  "databaseStack_props e =
     \<lparr> env = Some e, stage = bin_stage, appName = bin_appName,
       vpc = FoundationStack_vpc (foundationStack_props e) \<rparr>"

definition appStack_props :: "Platform \<Rightarrow> Environment \<Rightarrow> AppStackProps" where
  "appStack_props pf e =
     \<lparr> env = Some e, stage = bin_stage, appName = bin_appName,
       vpc = FoundationStack_vpc (foundationStack_props e),
       databaseCredentialsSecretArn =
         DatabaseStack_databaseCredentialsSecretArn pf (databaseStack_props e),
       database = DatabaseStack_database pf (databaseStack_props e) \<rparr>"

subsection \<open>A concrete platform and environment\<close>

text \<open>
  To evaluate the stacks at concrete inputs a platform is needed.  This one formats ARNs in
  the shape shown in the comment above \<^verbatim>\<open>ecsServiceArn\<close> in appStack.ts
  (\<^verbatim>\<open>arn:aws:ecs:eu-west-2:1234567:service/live-beats-cluster/live-beats-service\<close>)
  and answers every load balancer with the host name \<open>h\<close>.
\<close>

definition stackAccount :: "Stack \<Rightarrow> string" where
  "stackAccount st =
     (case stackEnv st of
        None \<Rightarrow> ''''
      | Some e \<Rightarrow> (case account e of None \<Rightarrow> '''' | Some a \<Rightarrow> a))"

definition stackRegion :: "Stack \<Rightarrow> string" where
  "stackRegion st =
     (case stackEnv st of
        None \<Rightarrow> ''''
      | Some e \<Rightarrow> (case region e of None \<Rightarrow> '''' | Some r \<Rightarrow> r))"

definition examplePlatform :: "string \<Rightarrow> Platform" where
  "examplePlatform h =
     \<lparr> formatArn = (\<lambda>st c. ''arn:aws:'' @ service c @ '':'' @ stackRegion st @ '':''
                        @ stackAccount st @ '':'' @ resource c @ ''/'' @ resourceName c),
       secretArnOf = (\<lambda>ident. ''arn:aws:secretsmanager:secret:'' @ ident),
       dnsNameOf = (\<lambda>nm. h) \<rparr>"

definition exampleEnv :: Environment where
  "exampleEnv = envPrimaryRegion (Some ''1234567'') (Some ''eu-west-2'')"

text \<open>The spec's lowercase normalisation of a host name (ASCII letters), for comparison with
  what the constructor injects.\<close>

definition spec_lowercase_char :: "char \<Rightarrow> char" where
  "spec_lowercase_char c =
     (case map_of (zip ''ABCDEFGHIJKLMNOPQRSTUVWXYZ'' ''abcdefghijklmnopqrstuvwxyz'') c of
        Some l \<Rightarrow> l
      | None \<Rightarrow> c)"

definition spec_lowercase :: "string \<Rightarrow> string" where
  "spec_lowercase s = map spec_lowercase_char s"

section \<open>Properties\<close>

lemmas sg_calls =
  new_SecurityGroup_def addIngressRule_def addEgressRule_def allowFrom_def allowTo_def

lemmas sg_reads = ingressRules_def egressRules_def ingressPeers_def egressPeers_def

lemma sgRules_ecsServiceSecurityGroup:
  "sgRules (ecsServiceSecurityGroup props) =
     [ allowAllOutboundRule,
       \<lparr> ruleDirection = Ingress,
         rulePeer = Connections [sgId (ecsAlbSecurityGroup props)],
         rulePort = Port_tcp 4000,
         ruleDescription = ''Allow TCP traffic on port 4000 from the load balancer'' \<rparr>,
       \<lparr> ruleDirection = Ingress,
         rulePeer = Peer_ipv4 (vpcCidrBlock (vpc props)),
         rulePort = Port_allTcp,
         ruleDescription = ''Allow TCP traffic from other nodes for libcluster'' \<rparr> ]"
  unfolding ecsServiceSecurityGroup_def sg_calls by simp

lemma sgId_ecsServiceSecurityGroup:
  "sgId (ecsServiceSecurityGroup props)
     = stage props @ ''-'' @ appName props @ ''-ecs-service-security-group''"
  unfolding ecsServiceSecurityGroup_def sg_calls by simp

lemma sgRules_databaseSecurityGroup:
  "sgRules (databaseSecurityGroup props) = [allowAllOutboundRule]"
  by (simp add: databaseSecurityGroup_def new_SecurityGroup_def)

lemma dbSecurityGroups_appStack_props:
  "dbSecurityGroups (database (appStack_props pf e))
     = [databaseSecurityGroup (databaseStack_props e)]"
  by (simp add: appStack_props_def DatabaseStack_database_def)

text \<open>The other end of the first \<^verbatim>\<open>allowFrom\<close> call: the load balancer's group was
  created with \<^verbatim>\<open>allowAllOutbound\<close>, so the outbound rule is dropped.\<close>

lemma ecsAlbSecurityGroup_other_end:
  "allowFrom_other sg (ecsAlbSecurityGroup props) prt d = ecsAlbSecurityGroup props"
  by (simp add: ecsAlbSecurityGroup_def allowFrom_other_def sg_calls)

lemma vpcCidrBlock_appStack_props:
  "vpcCidrBlock (vpc (appStack_props pf e)) = ''10.0.0.0/21''"
  by (simp add: appStack_props_def FoundationStack_vpc_def vpcCidrBlock_def)

lemma healthCheck_lbTargetGroup:
  "healthCheck (lbTargetGroup pf ident props) =
     \<lparr> hcPath = ''/signin'', healthyThresholdCount = 2, unhealthyThresholdCount = 2,
       hcInterval = Duration_seconds 5, hcTimeout = Duration_seconds 3 \<rparr>"
  by (simp add: lbTargetGroup_def setAttribute_def addTargets_def)

subsection \<open>The host name handed to the application\<close>

text \<open>
  C2, as stated: for every host name the platform generates for the load balancer, the
  \<^verbatim>\<open>PHX_HOST\<close> entry of the container environment is that host name in lower case.
  The constructor does not normalise: for the host name
  \<^verbatim>\<open>DEMO-ABC123.example-region.provider.net\<close> the entry is that very string, which is not
  its lowercase form.
\<close>

theorem PHX_HOST_not_lowercased:
  "map_of (environment
       (container (examplePlatform ''DEMO-ABC123.example-region.provider.net'') ''app-stack''
          (appStack_props (examplePlatform ''DEMO-ABC123.example-region.provider.net'')
             exampleEnv)))
     ''PHX_HOST''
     = Some ''DEMO-ABC123.example-region.provider.net''
   \<and> spec_lowercase ''DEMO-ABC123.example-region.provider.net''
     = ''demo-abc123.example-region.provider.net''
   \<and> ''DEMO-ABC123.example-region.provider.net''
     \<noteq> spec_lowercase ''DEMO-ABC123.example-region.provider.net''"
  by (simp add: container_def ecsLoadBalancer_def new_ApplicationLoadBalancer_def
        examplePlatform_def spec_lowercase_def spec_lowercase_char_def)

text \<open>
  C2, amended: the \<^verbatim>\<open>PHX_HOST\<close> entry is the DNS name of the load balancer exactly as
  the platform reports it for the load balancer named \<open>stage-appName-ecs-lb\<close>; the
  constructor chooses that name itself and applies no case normalisation.
\<close>

theorem PHX_HOST_is_generated_hostname:
  "map_of (environment (container pf ident props)) ''PHX_HOST''
     = Some (loadBalancerDnsName (ecsLoadBalancer pf props))
   \<and> loadBalancerDnsName (ecsLoadBalancer pf props)
     = dnsNameOf pf (stage props @ ''-'' @ appName props @ ''-ecs-lb'')
   \<and> loadBalancerName (ecsLoadBalancer pf props)
     = stage props @ ''-'' @ appName props @ ''-ecs-lb''"
  by (simp add: container_def ecsLoadBalancer_def new_ApplicationLoadBalancer_def)

subsection \<open>Rules of the service's security group\<close>

text \<open>
  C3, as stated: the service's security group admits inbound TCP on port 4000 only from the
  load balancer's security group, and outbound TCP 5432 only to the database.  In the
  deployment of bin/live-beats-aws.ts it also admits port 4000 from the VPC's address block,
  through the all-TCP rule; and outbound it admits, for one, TCP 443 to any IPv4 address,
  through the allow-all rule the group is created with.
\<close>

theorem service_group_admits_more_than_claimed:
  "admitsIngress (ecsServiceSecurityGroup (appStack_props (examplePlatform ''h'') exampleEnv))
     IP_TCP 4000 (Peer_ipv4 ''10.0.0.0/21'')
   \<and> Peer_ipv4 ''10.0.0.0/21''
     \<noteq> Connections
         [sgId (ecsAlbSecurityGroup (appStack_props (examplePlatform ''h'') exampleEnv))]
   \<and> admitsEgress (ecsServiceSecurityGroup (appStack_props (examplePlatform ''h'') exampleEnv))
     IP_TCP 443 Peer_anyIpv4"
  by (simp add: admitsIngress_def admitsEgress_def sg_reads sgRules_ecsServiceSecurityGroup
        vpcCidrBlock_appStack_props allowAllOutboundRule_def)

text \<open>
  C3, amended: for all props, the service's security group admits inbound TCP on port 4000
  from exactly two sources, the load balancer's security group and the VPC's address block,
  and its inbound rules have no other source; in the deployment of bin/live-beats-aws.ts
  the block is \<^verbatim>\<open>10.0.0.0/21\<close>, so no inbound rule has the any-IPv4 block as its source.
  Outbound, the group has its allow-all rule and no other: every protocol and port is
  admitted to any IPv4 address, TCP 5432 to the database among the rest, and the
  \<^verbatim>\<open>allowTo\<close> call adds no outbound rule.
\<close>

theorem service_security_group_paths:
  "ingressPeers (ecsServiceSecurityGroup props) IP_TCP 4000
     = [Connections [sgId (ecsAlbSecurityGroup props)], Peer_ipv4 (vpcCidrBlock (vpc props))]
   \<and> map rulePeer (ingressRules (ecsServiceSecurityGroup props))
     = [Connections [sgId (ecsAlbSecurityGroup props)], Peer_ipv4 (vpcCidrBlock (vpc props))]
   \<and> map rulePeer (ingressRules (ecsServiceSecurityGroup (appStack_props pf e)))
     = [Connections [sgId (ecsAlbSecurityGroup (appStack_props pf e))],
        Peer_ipv4 ''10.0.0.0/21'']
   \<and> Peer_anyIpv4
     \<notin> set (map rulePeer (ingressRules (ecsServiceSecurityGroup (appStack_props pf e))))
   \<and> map (\<lambda>r. (rulePeer r, rulePort r)) (egressRules (ecsServiceSecurityGroup props))
     = [(Peer_anyIpv4, Port_allTraffic)]
   \<and> egressPeers (ecsServiceSecurityGroup props) pr p = [Peer_anyIpv4]"
proof -
  have rules: "ingressRules (ecsServiceSecurityGroup q) = tl (sgRules (ecsServiceSecurityGroup q))"
    for q :: "'b AppStackProps_scheme"
    by (simp add: ingressRules_def sgRules_ecsServiceSecurityGroup allowAllOutboundRule_def)
  have out: "egressRules (ecsServiceSecurityGroup props) = [allowAllOutboundRule]"
    by (simp add: egressRules_def sgRules_ecsServiceSecurityGroup allowAllOutboundRule_def)
  have inb: "ingressPeers (ecsServiceSecurityGroup props) IP_TCP 4000
     = [Connections [sgId (ecsAlbSecurityGroup props)], Peer_ipv4 (vpcCidrBlock (vpc props))]"
    by (simp add: ingressPeers_def rules sgRules_ecsServiceSecurityGroup)
  have src: "map rulePeer (ingressRules (ecsServiceSecurityGroup q))
     = [Connections [sgId (ecsAlbSecurityGroup q)], Peer_ipv4 (vpcCidrBlock (vpc q))]"
    for q :: "'b AppStackProps_scheme"
    by (simp add: rules sgRules_ecsServiceSecurityGroup)
  have pub: "Peer_anyIpv4
     \<notin> set (map rulePeer (ingressRules (ecsServiceSecurityGroup (appStack_props pf e))))"
    by (simp add: src vpcCidrBlock_appStack_props Peer_anyIpv4_def)
  have outp: "egressPeers (ecsServiceSecurityGroup props) pr p = [Peer_anyIpv4]"
    by (simp add: egressPeers_def out allowAllOutboundRule_def)
  show ?thesis
    using inb src [of props] src [of "appStack_props pf e"] pub outp
    by (simp add: out allowAllOutboundRule_def vpcCidrBlock_appStack_props)
qed

text \<open>
  C4, as stated: the service's security group has a rule admitting all ports and all
  protocols from the VPC's address block.  The rule is \<^verbatim>\<open>ec2.Port.allTcp()\<close>: in the
  deployment of bin/live-beats-aws.ts, UDP on port 4369 from the block is not admitted.
\<close>

theorem vpc_block_rule_is_tcp_only:
  "\<not> admitsIngress
       (ecsServiceSecurityGroup (appStack_props (examplePlatform ''h'') exampleEnv))
       IP_UDP 4369 (Peer_ipv4 ''10.0.0.0/21'')"
  by (simp add: admitsIngress_def sg_reads sgRules_ecsServiceSecurityGroup
        allowAllOutboundRule_def)

text \<open>
  C4, amended: the service's security group has an inbound rule from the VPC's address
  block for all TCP ports, and what it admits from that block is exactly TCP on the ports
  0 to 65535.
\<close>

theorem vpc_block_rule_all_tcp:
  "\<lparr> ruleDirection = Ingress,
     rulePeer = Peer_ipv4 (vpcCidrBlock (vpc props)),
     rulePort = Port_allTcp,
     ruleDescription = ''Allow TCP traffic from other nodes for libcluster'' \<rparr>
     \<in> set (sgRules (ecsServiceSecurityGroup props))
   \<and> admitsIngress (ecsServiceSecurityGroup props) pr p (Peer_ipv4 (vpcCidrBlock (vpc props)))
     = (pr = IP_TCP \<and> p \<le> 65535)"
proof
  show "\<lparr> ruleDirection = Ingress,
     rulePeer = Peer_ipv4 (vpcCidrBlock (vpc props)),
     rulePort = Port_allTcp,
     ruleDescription = ''Allow TCP traffic from other nodes for libcluster'' \<rparr>
     \<in> set (sgRules (ecsServiceSecurityGroup props))"
    by (simp add: sgRules_ecsServiceSecurityGroup)
next
  show "admitsIngress (ecsServiceSecurityGroup props) pr p (Peer_ipv4 (vpcCidrBlock (vpc props)))
     = (pr = IP_TCP \<and> p \<le> 65535)"
    by (auto simp add: admitsIngress_def sg_reads sgRules_ecsServiceSecurityGroup
          allowAllOutboundRule_def)
qed

subsection \<open>The service and its target group\<close>

text \<open>
  C7: the service is created with desired count zero, whatever the props; the service the
  target group registers is that same service, so the whole graph is declared with no
  replica asked for.
\<close>

theorem service_created_with_zero_replicas:
  "desiredCount (ecsService pf ident props) = 0
   \<and> tgTargets (lbTargetGroup pf ident props) = [ecsService pf ident props]
   \<and> map desiredCount (tgTargets (lbTargetGroup pf ident props)) = [0]"
  by (simp add: ecsService_def lbTargetGroup_def setAttribute_def addTargets_def)

text \<open>
  C8: the health check of the target group has an interval strictly greater than its
  timeout.
\<close>

theorem health_check_interval_exceeds_timeout:
  "toSeconds (hcTimeout (healthCheck (lbTargetGroup pf ident props)))
     < toSeconds (hcInterval (healthCheck (lbTargetGroup pf ident props)))"
  unfolding healthCheck_lbTargetGroup by simp

text \<open>
  C10: the service runs in the public subnets with a public IP for each task, the database
  in the private isolated subnets, and the VPC of the foundation stack has the two subnet
  tiers and no NAT gateway; so do the database and the VPC that bin/live-beats-aws.ts hands
  to the app stack.
\<close>

theorem service_in_public_subnets:
  "svcVpcSubnets (ecsService pf ident props) = PUBLIC
   \<and> assignPublicIp (ecsService pf ident props)
   \<and> dbVpcSubnets (DatabaseStack_database pf dprops) = PRIVATE_ISOLATED
   \<and> svcVpcSubnets (ecsService pf ident props) \<noteq> dbVpcSubnets (DatabaseStack_database pf dprops)
   \<and> natGateways (FoundationStack_vpc fprops) = 0
   \<and> map subnetType (subnetConfiguration (FoundationStack_vpc fprops))
     = [PUBLIC, PRIVATE_ISOLATED]
   \<and> dbVpcSubnets (database (appStack_props pf e)) = PRIVATE_ISOLATED
   \<and> natGateways (vpc (appStack_props pf e)) = 0"
  by (simp add: ecsService_def DatabaseStack_database_def FoundationStack_vpc_def
        appStack_props_def)

subsection \<open>Names\<close>

text \<open>
  C9: the cluster name and the service name are \<open>appName\<close> followed by
  \<^verbatim>\<open>-ecs-cluster\<close> and \<^verbatim>\<open>-ecs-service\<close>; two sets of props with the same
  \<open>appName\<close> give the same names to the cluster and to the service whatever their
  \<open>stage\<close>, and, in the same stack environment, the same predicted service ARN.
\<close>

theorem names_independent_of_stage:
  assumes "appName p1 = appName p2" and "env p1 = env p2"
  shows "ecsClusterName p1 = appName p1 @ ''-ecs-cluster''
    \<and> ecsServiceName p1 = appName p1 @ ''-ecs-service''
    \<and> clusterName (ecsCluster p1) = clusterName (ecsCluster p2)
    \<and> serviceName (ecsService pf ident p1) = serviceName (ecsService pf ident p2)
    \<and> ecsServiceArn pf ident p1 = ecsServiceArn pf ident p2
    \<and> map_of (environment (container pf ident p1)) ''AWS_ECS_SERVICE_ARN''
      = map_of (environment (container pf ident p2)) ''AWS_ECS_SERVICE_ARN''"
proof -
  have c: "ecsClusterName p1 = ecsClusterName p2"
    using assms(1) by (simp add: ecsClusterName_def)
  have s: "ecsServiceName p1 = ecsServiceName p2"
    using assms(1) by (simp add: ecsServiceName_def)
  have st: "new_Stack ident p1 = new_Stack ident p2"
    using assms(2) by (simp add: new_Stack_def)
  have arn: "ecsServiceArn pf ident p1 = ecsServiceArn pf ident p2"
    by (simp add: ecsServiceArn_def c s st)
  show ?thesis
    using c s arn
    by (simp add: ecsClusterName_def ecsServiceName_def ecsCluster_def ecsService_def
          container_def)
qed

theorem names_independent_of_stage_witness:
  "stage (appStack_props (examplePlatform ''h'') exampleEnv)
     \<noteq> stage ((appStack_props (examplePlatform ''h'') exampleEnv)\<lparr> stage := ''production'' \<rparr>)
   \<and> clusterName (ecsCluster (appStack_props (examplePlatform ''h'') exampleEnv))
     = ''live-beats-ecs-cluster''
   \<and> clusterName
       (ecsCluster ((appStack_props (examplePlatform ''h'') exampleEnv)\<lparr> stage := ''production'' \<rparr>))
     = ''live-beats-ecs-cluster''
   \<and> ecsServiceArn (examplePlatform ''h'') ''app-stack''
       (appStack_props (examplePlatform ''h'') exampleEnv)
     = ecsServiceArn (examplePlatform ''h'') ''app-stack''
         ((appStack_props (examplePlatform ''h'') exampleEnv)\<lparr> stage := ''production'' \<rparr>)"
proof -
  let ?p1 = "appStack_props (examplePlatform ''h'') exampleEnv"
  let ?p2 = "?p1\<lparr> stage := ''production'' \<rparr>"
  have a: "appName ?p1 = appName ?p2" by simp
  have e: "env ?p1 = env ?p2" by simp
  have n: "clusterName (ecsCluster ?p1) = ''live-beats-ecs-cluster''"
    by (simp add: ecsCluster_def ecsClusterName_def appStack_props_def bin_appName_def)
  have d: "stage ?p1 \<noteq> stage ?p2"
    by (simp add: appStack_props_def bin_stage_def)
  from names_independent_of_stage [OF a e, of "examplePlatform ''h''" "''app-stack''"] n d
  show ?thesis by simp
qed

subsection \<open>The database's security group\<close>

text \<open>
  C6, as stated: the database's security group is created with no rules, no later stack
  adds a rule to it, and the app stack grants access to the database only by an outbound
  rule on its own group.  In the deployment of bin/live-beats-aws.ts the group is created
  with the allow-all outbound rule; after the app stack's constructor it has in addition an
  inbound rule for TCP 5432 from the service's security group, so it is not the group the
  database stack handed over; and the service's group has no outbound rule whose peer is the
  database.
\<close>

theorem database_group_gets_inbound_rule:
  "sgRules (databaseSecurityGroup (databaseStack_props exampleEnv)) \<noteq> []
   \<and> map ruleDirection
       (concat (map sgRules
          (AppStack_databaseSecurityGroups (appStack_props (examplePlatform ''h'') exampleEnv))))
     = [Egress, Ingress]
   \<and> map rulePeer
       (concat (map ingressRules
          (AppStack_databaseSecurityGroups (appStack_props (examplePlatform ''h'') exampleEnv))))
     = [Connections [''staging-live-beats-ecs-service-security-group'']]
   \<and> map rulePort
       (concat (map ingressRules
          (AppStack_databaseSecurityGroups (appStack_props (examplePlatform ''h'') exampleEnv))))
     = [Port_tcp 5432]
   \<and> AppStack_databaseSecurityGroups (appStack_props (examplePlatform ''h'') exampleEnv)
     \<noteq> dbSecurityGroups (database (appStack_props (examplePlatform ''h'') exampleEnv))
   \<and> DatabaseInstanceRef ''staging-live-beats-database''
     \<notin> set (map rulePeer
         (egressRules
            (ecsServiceSecurityGroup (appStack_props (examplePlatform ''h'') exampleEnv))))"
proof -
  let ?p = "appStack_props (examplePlatform ''h'') exampleEnv"
  have id: "sgId (ecsServiceSecurityGroup ?p) = ''staging-live-beats-ecs-service-security-group''"
    by (simp add: sgId_ecsServiceSecurityGroup appStack_props_def bin_stage_def bin_appName_def)
  have g: "AppStack_databaseSecurityGroups ?p
    = [ (databaseSecurityGroup (databaseStack_props exampleEnv))
          \<lparr> sgRules :=
             [ allowAllOutboundRule,
               \<lparr> ruleDirection = Ingress,
                 rulePeer = Connections [''staging-live-beats-ecs-service-security-group''],
                 rulePort = Port_tcp 5432,
                 ruleDescription =
                   ''Allow traffic on port 5432 from the ECS service to the database'' \<rparr> ] \<rparr> ]"
    by (simp add: AppStack_databaseSecurityGroups_def dbSecurityGroups_appStack_props
          allowTo_other_def addIngressRule_def id sgRules_databaseSecurityGroup)
  have ne: "AppStack_databaseSecurityGroups ?p \<noteq> dbSecurityGroups (database ?p)"
  proof
    assume "AppStack_databaseSecurityGroups ?p = dbSecurityGroups (database ?p)"
    then have "map sgRules (AppStack_databaseSecurityGroups ?p)
      = map sgRules (dbSecurityGroups (database ?p))"
      by simp
    then show False
      by (simp add: g dbSecurityGroups_appStack_props sgRules_databaseSecurityGroup)
  qed
  have eg: "map rulePeer (egressRules (ecsServiceSecurityGroup ?p)) = [Peer_anyIpv4]"
    by (simp add: egressRules_def sgRules_ecsServiceSecurityGroup allowAllOutboundRule_def)
  show ?thesis
    using ne
    by (simp add: g eg sgRules_databaseSecurityGroup ingressRules_def
          allowAllOutboundRule_def Peer_anyIpv4_def)
qed

text \<open>
  C6, amended: the database stack creates the database's security group with no inbound
  rule (it has only the allow-all outbound rule).  The app stack does change it: its
  \<^verbatim>\<open>allowTo\<close> call, made on the service's security group, adds to each security group
  of the database an inbound rule for TCP 5432 whose source is the service's security
  group, and adds no outbound rule to the service's group, which keeps only its allow-all
  outbound rule.
\<close>

theorem database_access_is_inbound_rule_on_database_group:
  "ingressRules (databaseSecurityGroup dprops) = []
   \<and> sgRules (databaseSecurityGroup dprops) = [allowAllOutboundRule]
   \<and> AppStack_databaseSecurityGroups props
     = map (\<lambda>g. g\<lparr> sgRules := sgRules g @
              [ \<lparr> ruleDirection = Ingress,
                  rulePeer = Connections
                    [stage props @ ''-'' @ appName props @ ''-ecs-service-security-group''],
                  rulePort = Port_tcp 5432,
                  ruleDescription =
                    ''Allow traffic on port 5432 from the ECS service to the database'' \<rparr> ] \<rparr>)
         (dbSecurityGroups (database props))
   \<and> map sgRules (AppStack_databaseSecurityGroups (appStack_props pf e))
     = [ [ allowAllOutboundRule,
           \<lparr> ruleDirection = Ingress,
             rulePeer = Connections [''staging-live-beats-ecs-service-security-group''],
             rulePort = Port_tcp 5432,
             ruleDescription =
               ''Allow traffic on port 5432 from the ECS service to the database'' \<rparr> ] ]
   \<and> egressRules (ecsServiceSecurityGroup props) = [allowAllOutboundRule]"
proof -
  have created: "ingressRules (databaseSecurityGroup dprops) = []"
    by (simp add: ingressRules_def sgRules_databaseSecurityGroup allowAllOutboundRule_def)
  have after: "AppStack_databaseSecurityGroups q
     = map (\<lambda>g. g\<lparr> sgRules := sgRules g @
              [ \<lparr> ruleDirection = Ingress,
                  rulePeer = Connections
                    [stage q @ ''-'' @ appName q @ ''-ecs-service-security-group''],
                  rulePort = Port_tcp 5432,
                  ruleDescription =
                    ''Allow traffic on port 5432 from the ECS service to the database'' \<rparr> ] \<rparr>)
         (dbSecurityGroups (database q))"
    for q :: "'c AppStackProps_scheme"
    by (simp add: AppStack_databaseSecurityGroups_def allowTo_other_def addIngressRule_def
          sgId_ecsServiceSecurityGroup)
  have names: "stage (appStack_props pf e) = ''staging''" "appName (appStack_props pf e) = ''live-beats''"
    by (simp_all add: appStack_props_def bin_stage_def bin_appName_def)
  have deployed: "map sgRules (AppStack_databaseSecurityGroups (appStack_props pf e))
     = [ [ allowAllOutboundRule,
           \<lparr> ruleDirection = Ingress,
             rulePeer = Connections [''staging-live-beats-ecs-service-security-group''],
             rulePort = Port_tcp 5432,
             ruleDescription =
               ''Allow traffic on port 5432 from the ECS service to the database'' \<rparr> ] ]"
    by (simp add: after [of "appStack_props pf e"] names dbSecurityGroups_appStack_props
          sgRules_databaseSecurityGroup)
  have own: "egressRules (ecsServiceSecurityGroup props) = [allowAllOutboundRule]"
    by (simp add: egressRules_def sgRules_ecsServiceSecurityGroup allowAllOutboundRule_def)
  from created after [of props] deployed own show ?thesis
    by (simp add: sgRules_databaseSecurityGroup)
qed

subsection \<open>Further facts about the declarations\<close>

lemma database_secret_fields_read:
  "map (map_of (secrets (container pf ident props)))
       [''DB_USERNAME'', ''DB_PASSWORD'', ''DB_HOST'', ''DB_PORT'']
     = map (\<lambda>k. Some (Secret_fromSecretsManager (databaseCredentialsSecretArn props) (Some k)))
         [''username'', ''password'', ''host'', ''port'']"
  by (simp add: container_def databaseCredentialsSecret_def fromSecretCompleteArn_def)

lemma database_secret_declared_keys:
  "secretStringTemplate
       (generateSecretString (DatabaseStack_databaseCredentialsSecret pf props))
     = Some [(''username'', ''postgres'')]
   \<and> generateStringKey
       (generateSecretString (DatabaseStack_databaseCredentialsSecret pf props))
     = Some ''password''
   \<and> databaseCredentialsSecretArn (appStack_props pf e)
     = secretArn (DatabaseStack_databaseCredentialsSecret pf (databaseStack_props e))"
  by (simp add: DatabaseStack_databaseCredentialsSecret_def new_Secret_def appStack_props_def
        DatabaseStack_databaseCredentialsSecretArn_def)

lemma service_arn_built_from_assigned_names:
  "map_of (environment (container pf ident props)) ''AWS_ECS_SERVICE_ARN''
     = Some (formatArn pf (new_Stack ident props)
         \<lparr> service = ''ecs'', resource = ''service'',
           resourceName = clusterName (svcCluster (ecsService pf ident props)) @ ''/''
             @ serviceName (ecsService pf ident props) \<rparr>)"
  by (simp add: container_def ecsServiceArn_def ecsService_def ecsCluster_def)

end
